theory Spec2Isabelle
  imports Complex_Main "HOL-Library.Product_Lexorder"
begin

section \<open>Life Morale Index scoring (src/lib/scoring.ts)\<close>

text \<open>
  The scoring function is embedded as HOL functions over the reals. A JavaScript
  \<^verbatim>\<open>number\<close> supplied by the caller is a real; rounding of IEEE doubles and
  overflow to an infinity are outside the model. The one place where the source produces
  a value that is no real from real operands is the quotient \<^verbatim>\<open>num / den\<close> of
  \<^verbatim>\<open>calibrate\<close> with \<^verbatim>\<open>k = 0\<close>, which is \<^verbatim>\<open>0 / 0 = NaN\<close>; the
  type \<open>jsnum\<close> keeps that value apart, because \<^verbatim>\<open>avg\<close> filters it out. An
  optional field, \<^verbatim>\<open>undefined\<close> and \<^verbatim>\<open>null\<close> are \<open>None\<close>.

  Where rounding decides a property, the real-valued model says nothing about the code.
  This is the case for \<^verbatim>\<open>calibrate\<close> at a very small positive \<^verbatim>\<open>k\<close> (see its
  definition below). The statements about \<open>scoreLMI\<close> either evaluate
  \<^verbatim>\<open>calibrate\<close> at the default \<^verbatim>\<open>k\<close>, where code and model agree up to
  rounding, or do not depend on the calibrated values.
\<close>

subsection \<open>Data model (lines 2-36)\<close>

datatype jsnum = Num real | NaN

datatype error = TypeError | ReferenceError string

record Answer =
  score :: "real option"
  scenarioScore :: "real option"
  anote :: "string option"

datatype TimeCategory =
  Sleep | Work | Commute | Relationships | Leisure | Gym | Chores | Growth | Other

record TimeRow =
  category :: TimeCategory
  hours :: real
  ri :: real

datatype DimensionKey = Fulfillment | Connection | Autonomy | Vitality | Peace

record Calibration =
  cal_k :: real
  cal_max :: real

record RiConfig =
  globalMultiplier :: real

record CrossLift =
  enabled :: bool
  alpha :: real

record Config =
  calibration :: Calibration
  ri_config :: RiConfig
  crossLift :: CrossLift

text \<open>\<^verbatim>\<open>Partial<Config>\<close>: each of the three groups may be absent.\<close>

record PartialConfig =
  calibration_opt :: "Calibration option"
  ri_opt :: "RiConfig option"
  crossLift_opt :: "CrossLift option"

text \<open>
  \<^verbatim>\<open>ELI\<close> is declared a number; the source reads it as \<^verbatim>\<open>input.ELI ?? 1\<close>,
  so its absence is part of the model.
\<close>

record Input =
  answers :: "Answer list"
  timeMap :: "TimeRow list"
  ELI :: "real option"
  config :: "PartialConfig option"

record TopItem =
  index :: nat
  item_score :: real
  item_note :: "string option"

record Output =
  calibrated_current :: "jsnum option list"
  calibrated_scenario :: "jsnum option list"
  sectionAverages_current :: "DimensionKey \<Rightarrow> real option"
  sectionAverages_scenario :: "DimensionKey \<Rightarrow> real option"
  out_rawLMS :: real
  out_riAdjusted :: real
  out_finalLMI :: real
  out_rawLMS_scn :: real
  out_riAdjusted_scn :: real
  out_finalLMI_scn :: real
  topDrainers :: "TopItem list"
  topUplifters :: "TopItem list"

subsection \<open>Constants (lines 38-50)\<close>

definition DEFAULT_CONFIG :: Config where
  "DEFAULT_CONFIG =
     \<lparr>calibration = \<lparr>cal_k = 1.936428228, cal_max = 8.75\<rparr>,
      ri_config = \<lparr>globalMultiplier = 1\<rparr>,
      crossLift = \<lparr>enabled = False, alpha = 20\<rparr>\<rparr>"

fun DIM_MAP :: "DimensionKey \<Rightarrow> nat list" where
  "DIM_MAP Fulfillment = [0, 1, 2, 3, 4]"
| "DIM_MAP Connection = [5, 6, 7, 8, 9]"
| "DIM_MAP Autonomy = [10, 11, 12, 13, 14]"
| "DIM_MAP Vitality = [15, 16, 17, 18, 19]"
| "DIM_MAP Peace = [20, 21, 22, 23]"

subsection \<open>Helpers (lines 52-85)\<close>

text \<open>The operator \<^verbatim>\<open>a ?? b\<close>: \<open>b\<close> when \<open>a\<close> is null or undefined.\<close>

definition orElse :: "'a option \<Rightarrow> 'a \<Rightarrow> 'a" where
  "orElse a b = (case a of Some v \<Rightarrow> v | None \<Rightarrow> b)"

text \<open>Reading an array of optional values at an index: out of range is \<^verbatim>\<open>undefined\<close>.\<close>

definition elemAt :: "'a option list \<Rightarrow> nat \<Rightarrow> 'a option" where
  "elemAt xs i = (if i < length xs then xs ! i else None)"

definition riToInternal :: "real option \<Rightarrow> real" where
  "riToInternal r =
     (case r of
        None \<Rightarrow> 0
      | Some v \<Rightarrow>
          if v < 5 then (v - 5) * 0.075
          else if v = 5 then 0
          else (v - 5) * 0.06)"

text \<open>
  \<^verbatim>\<open>calibrate\<close>. The denominator \<open>1 - exp (- k)\<close> is zero only for \<open>k = 0\<close>, and
  then the numerator is zero as well (lemma \<open>calibrate_den_zero\<close> below), so the
  quotient is \<^verbatim>\<open>NaN\<close> and so is its product with \<^verbatim>\<open>max\<close>.

  This is exact arithmetic. In the doubles of the code \<^verbatim>\<open>Math.exp(-k)\<close> rounds to 1
  for every positive \<^verbatim>\<open>k\<close> below about 1.1e-16, so that the code returns
  \<^verbatim>\<open>NaN\<close> there (for instance \<^verbatim>\<open>calibrate(10, 1e-20, 8.75)\<close>), and for a slightly
  larger \<^verbatim>\<open>k\<close> the numerator rounds to 0 while the denominator does not, so that
  the code returns 0 (for instance \<^verbatim>\<open>calibrate(1, 2e-16, 8.75)\<close>). At these values of
  \<^verbatim>\<open>k\<close> the definition below returns a positive number and is not the code. At the
  default \<^verbatim>\<open>k\<close> it agrees with the code up to rounding.
\<close>

definition calibrate :: "real option \<Rightarrow> real \<Rightarrow> real \<Rightarrow> jsnum option" where
  "calibrate s k mx =
     (case s of
        None \<Rightarrow> None
      | Some v \<Rightarrow>
          let x = max 1 (min 10 v);
              num = 1 - exp (- k * (x / 10));
              den = 1 - exp (- k)
          in Some (if den = 0 then NaN else Num (mx * (num / den))))"

definition avg :: "jsnum option list \<Rightarrow> real option" where
  "avg nums =
     (let v = List.map_filter (\<lambda>n. case n of Some (Num r) \<Rightarrow> Some r | _ \<Rightarrow> None) nums
      in if length v = 0 then None else Some (foldl (+) 0 v / real (length v)))"

record Quality =
  qWork :: real
  qCommute :: real
  qGym :: real
  qRelationships :: real
  qLeisure :: real
  qOther :: real

definition qualityFromSections :: "(DimensionKey \<Rightarrow> real option) \<Rightarrow> real option \<Rightarrow> Quality" where
  "qualityFromSections d base =
     \<lparr>qWork = orElse (d Autonomy) (orElse base 0),
      qCommute = orElse (d Peace) (orElse base 0),
      qGym = orElse (d Vitality) (orElse base 0),
      qRelationships = orElse (d Connection) (orElse base 0),
      qLeisure = orElse (d Fulfillment) (orElse base 0),
      qOther = orElse base 0\<rparr>"

subsection \<open>The body of \<^verbatim>\<open>scoreLMI\<close> (lines 87-237)\<close>

text \<open>
  The configuration (lines 88-92): each group is the caller's, or the default's when the
  caller gives no configuration or leaves the group out.
\<close>

definition resolveConfig :: "Input \<Rightarrow> Config" where
  "resolveConfig input =
     \<lparr>calibration = orElse (Option.bind (config input) calibration_opt) (calibration DEFAULT_CONFIG),
      ri_config = orElse (Option.bind (config input) ri_opt) (ri_config DEFAULT_CONFIG),
      crossLift = orElse (Option.bind (config input) crossLift_opt) (crossLift DEFAULT_CONFIG)\<rparr>"

text \<open>\<^verbatim>\<open>input.config?.ri?.globalMultiplier ?? 1\<close> (lines 187 and 231).\<close>

definition globalMultiplierOf :: "Input \<Rightarrow> real" where
  "globalMultiplierOf input =
     orElse (map_option globalMultiplier (Option.bind (config input) ri_opt)) 1"

text \<open>
  The closure \<^verbatim>\<open>find\<close> (lines 118-120): the first row of the time map with the
  category, or the default row. \<open>List.find\<close> returns the first element that satisfies the
  predicate, as \<^verbatim>\<open>Array.prototype.find\<close> does.
\<close>

definition findRow :: "TimeRow list \<Rightarrow> TimeCategory \<Rightarrow> TimeRow" where
  "findRow tm c =
     orElse (List.find (\<lambda>r. category r = c) tm)
       \<lparr>category = c, hours = (if c = Sleep then 49 else 0), ri = 5\<rparr>"

text \<open>
  The object \<^verbatim>\<open>by\<close> (lines 122-132) has one resolved row for each of the nine
  categories; it is the function \<open>resolveBy tm\<close> on \<open>TimeCategory\<close>.
\<close>

definition resolveBy :: "TimeRow list \<Rightarrow> TimeCategory \<Rightarrow> TimeRow" where
  "resolveBy tm = (\<lambda>c. findRow tm c)"

text \<open>
  The cross-lift block (lines 142-151, and again lines 194-203 with \<^verbatim>\<open>workQ_s\<close>): the
  two blocks are the same code on a different starting quality. A number is truthy when
  it is not zero.
\<close>

definition crossLiftAdjust ::
    "CrossLift \<Rightarrow> (TimeCategory \<Rightarrow> TimeRow) \<Rightarrow> real \<Rightarrow> real \<Rightarrow> real" where
  "crossLiftAdjust cl byc awake wq =
     (if enabled cl then
        let relFrac = (if awake \<noteq> 0 then hours (byc Relationships) / awake else 0);
            gymFrac = (if awake \<noteq> 0 then hours (byc Gym) / awake else 0);
            leisFrac = (if awake \<noteq> 0 then hours (byc Leisure) / awake else 0);
            relRI = max 0 (riToInternal (Some (ri (byc Relationships))));
            gymRI = max 0 (riToInternal (Some (ri (byc Gym))));
            leisRI = max 0 (riToInternal (Some (ri (byc Leisure))));
            uplift = alpha cl * (relFrac * relRI + gymFrac * gymRI + leisFrac * leisRI)
                       * ((10 - wq) / 10)
        in min 10 (max 1 (wq + uplift))
      else wq)"

text \<open>
  The sum of hours times quality over the six awake buckets, which the source writes out
  in \<^verbatim>\<open>awakeWeighted\<close>, \<^verbatim>\<open>rawLMS\<close> and their scenario copies.
\<close>

definition awakeSum ::
    "(TimeCategory \<Rightarrow> TimeRow) \<Rightarrow> real \<Rightarrow> real \<Rightarrow> real \<Rightarrow> real \<Rightarrow> real \<Rightarrow> real \<Rightarrow> real \<Rightarrow> real" where
  "awakeSum byc other wq cq gq rq lq oq =
     hours (byc Work) * wq + hours (byc Commute) * cq + hours (byc Gym) * gq
       + hours (byc Relationships) * rq + hours (byc Leisure) * lq + other * oq"

text \<open>\<^verbatim>\<open>netRI\<close> (lines 179-185).\<close>

definition netRIOf :: "(TimeCategory \<Rightarrow> TimeRow) \<Rightarrow> real \<Rightarrow> real" where
  "netRIOf byc other =
     (hours (byc Work) / 168) * riToInternal (Some (ri (byc Work)))
       + (hours (byc Commute) / 168) * riToInternal (Some (ri (byc Commute)))
       + (hours (byc Gym) / 168) * riToInternal (Some (ri (byc Gym)))
       + (hours (byc Relationships) / 168) * riToInternal (Some (ri (byc Relationships)))
       + (hours (byc Leisure) / 168) * riToInternal (Some (ri (byc Leisure)))
       + (other / 168) * riToInternal (Some (ri (byc Other)))"

text \<open>Sequencing of steps that may fail.\<close>

definition bindE :: "error + 'a \<Rightarrow> ('a \<Rightarrow> error + 'b) \<Rightarrow> error + 'b" where
  "bindE m f = (case m of Inl e \<Rightarrow> Inl e | Inr v \<Rightarrow> f v)"

text \<open>
  \<^verbatim>\<open>input.answers[x.i].note\<close> (lines 236-237): reading a property of the element at
  an index outside the array would raise a TypeError.
\<close>

definition noteAt :: "Answer list \<Rightarrow> nat \<Rightarrow> error + string option" where
  "noteAt as i = (if i < length as then Inr (anote (as ! i)) else Inl TypeError)"

fun topItems :: "Answer list \<Rightarrow> (nat \<times> real) list \<Rightarrow> error + TopItem list" where
  "topItems as [] = Inr []"
| "topItems as (x # xs) =
     bindE (noteAt as (fst x)) (\<lambda>n.
     bindE (topItems as xs) (\<lambda>rest.
       Inr (\<lparr>index = fst x, item_score = snd x, item_note = n\<rparr> # rest)))"

text \<open>
  \<^verbatim>\<open>baseScores\<close> and \<^verbatim>\<open>idxs\<close> (lines 234-235): an absent score becomes
  \<^verbatim>\<open>NaN\<close>, each score is paired with its index, and the \<^verbatim>\<open>NaN\<close> pairs are
  filtered out.
\<close>

definition baseScoresOf :: "Answer list \<Rightarrow> jsnum list" where
  "baseScoresOf as = map (\<lambda>a. case score a of Some v \<Rightarrow> Num v | None \<Rightarrow> NaN) as"

definition idxsOf :: "jsnum list \<Rightarrow> (nat \<times> real) list" where
  "idxsOf bs =
     List.map_filter (\<lambda>x. case snd x of Num v \<Rightarrow> Some (fst x, v) | NaN \<Rightarrow> None)
       (enumerate 0 bs)"

text \<open>
  The values the body binds before its return statement, under the names of the source.
  The configuration, \<^verbatim>\<open>by\<close>, \<^verbatim>\<open>baseScores\<close> and \<^verbatim>\<open>idxs\<close> are bound
  in the body as well; they are inputs of these values and are not kept in the record.
\<close>

record Computed =
  current :: "jsnum option list"
  scenario :: "jsnum option list"
  sectionCurrent :: "DimensionKey \<Rightarrow> real option"
  sectionScenario :: "DimensionKey \<Rightarrow> real option"
  baseAvgAll :: "real option"
  baseAvgAll_scn :: "real option"
  awakeHours :: real
  otherAwake :: real
  dimQ :: Quality
  dimQ_s :: Quality
  workQ :: real
  commuteQ :: real
  gymQ :: real
  relQ :: real
  leisQ :: real
  otherQ :: real
  awakeWeighted :: real
  sleepQ :: real
  rawLMS :: real
  netRI :: real
  riAdjusted :: real
  LMC :: real
  finalLMI :: real
  workQ_s :: real
  commuteQ_s :: real
  gymQ_s :: real
  relQ_s :: real
  leisQ_s :: real
  otherQ_s :: real
  awakeWeighted_s :: real
  sleepQ_s :: real
  rawLMS_s :: real
  riAdjusted_s :: real
  finalLMI_s :: real
  drains :: "TopItem list"
  lifts :: "TopItem list"

text \<open>
  The body, statement by statement. \<^verbatim>\<open>Array.prototype.sort\<close> is stable, and so is
  \<open>sort_key\<close>: \<^verbatim>\<open>sort((a, b) => a.s - b.s)\<close> is \<open>sort_key snd\<close> and
  \<^verbatim>\<open>sort((a, b) => b.s - a.s)\<close> is \<open>sort_key\<close> on the negated score. In the
  scenario block the left operand of each \<^verbatim>\<open>??\<close> is a field of \<^verbatim>\<open>dimQ_s\<close>,
  which \<^verbatim>\<open>qualityFromSections\<close> always sets to a number.
\<close>

definition scoreLMI_body :: "Input \<Rightarrow> error + Computed" where
  "scoreLMI_body input =
     (let cfg = resolveConfig input;
          current = map (\<lambda>a. calibrate (score a) (cal_k (calibration cfg)) (cal_max (calibration cfg)))
                      (answers input);
          scenario = map (\<lambda>a. calibrate (scenarioScore a) (cal_k (calibration cfg)) (cal_max (calibration cfg)))
                       (answers input);
          sectionCurrent = (\<lambda>d. avg (map (elemAt current) (DIM_MAP d)));
          sectionScenario = (\<lambda>d. avg (map (elemAt scenario) (DIM_MAP d)));
          baseAvgAll = avg current;
          baseAvgAll_scn = avg scenario;
          byc = resolveBy (timeMap input);
          awakeHours = max 0 (168 - hours (byc Sleep));
          otherAwake = max 0 (awakeHours
                         - (hours (byc Work) + hours (byc Commute) + hours (byc Gym)
                            + hours (byc Relationships) + hours (byc Leisure)));
          dimQ = qualityFromSections sectionCurrent baseAvgAll;
          dimQ_s = qualityFromSections sectionScenario
                     (case baseAvgAll_scn of Some v \<Rightarrow> Some v | None \<Rightarrow> baseAvgAll);
          workQ = crossLiftAdjust (crossLift cfg) byc awakeHours (qWork dimQ);
          commuteQ = qCommute dimQ;
          gymQ = qGym dimQ;
          relQ = qRelationships dimQ;
          leisQ = qLeisure dimQ;
          otherQ = qOther dimQ;
          awakeWeighted = awakeSum byc otherAwake workQ commuteQ gymQ relQ leisQ otherQ
                            / (if awakeHours \<noteq> 0 then awakeHours else 1);
          sleepQ = (10 + awakeWeighted) / 2;
          rawLMS = (awakeSum byc otherAwake workQ commuteQ gymQ relQ leisQ otherQ
                      + hours (byc Sleep) * sleepQ) / 168;
          netRI = netRIOf byc otherAwake;
          riAdjusted = rawLMS * (1 + globalMultiplierOf input * netRI);
          LMC = 10 - 0.2 * orElse (ELI input) 1;
          finalLMI = riAdjusted * (LMC / 10);
          workQ_s = crossLiftAdjust (crossLift cfg) byc awakeHours
                      (orElse (Some (qWork dimQ_s)) workQ);
          commuteQ_s = orElse (Some (qCommute dimQ_s)) commuteQ;
          gymQ_s = orElse (Some (qGym dimQ_s)) gymQ;
          relQ_s = orElse (Some (qRelationships dimQ_s)) relQ;
          leisQ_s = orElse (Some (qLeisure dimQ_s)) leisQ;
          otherQ_s = orElse (Some (qOther dimQ_s)) otherQ;
          awakeWeighted_s = awakeSum byc otherAwake workQ_s commuteQ_s gymQ_s relQ_s leisQ_s otherQ_s
                              / (if awakeHours \<noteq> 0 then awakeHours else 1);
          sleepQ_s = (10 + awakeWeighted_s) / 2;
          rawLMS_s = (awakeSum byc otherAwake workQ_s commuteQ_s gymQ_s relQ_s leisQ_s otherQ_s
                        + hours (byc Sleep) * sleepQ_s) / 168;
          riAdjusted_s = rawLMS_s * (1 + globalMultiplierOf input * netRI);
          finalLMI_s = riAdjusted_s * (LMC / 10);
          baseScores = baseScoresOf (answers input);
          idxs = idxsOf baseScores
      in bindE (topItems (answers input) (take 3 (sort_key snd idxs))) (\<lambda>drains.
         bindE (topItems (answers input) (take 3 (sort_key (\<lambda>x. - snd x) idxs))) (\<lambda>lifts.
           Inr \<lparr>current = current, scenario = scenario,
                sectionCurrent = sectionCurrent, sectionScenario = sectionScenario,
                baseAvgAll = baseAvgAll, baseAvgAll_scn = baseAvgAll_scn,
                awakeHours = awakeHours, otherAwake = otherAwake,
                dimQ = dimQ, dimQ_s = dimQ_s,
                workQ = workQ, commuteQ = commuteQ, gymQ = gymQ, relQ = relQ,
                leisQ = leisQ, otherQ = otherQ,
                awakeWeighted = awakeWeighted, sleepQ = sleepQ, rawLMS = rawLMS,
                netRI = netRI, riAdjusted = riAdjusted, LMC = LMC, finalLMI = finalLMI,
                workQ_s = workQ_s, commuteQ_s = commuteQ_s, gymQ_s = gymQ_s, relQ_s = relQ_s,
                leisQ_s = leisQ_s, otherQ_s = otherQ_s,
                awakeWeighted_s = awakeWeighted_s, sleepQ_s = sleepQ_s, rawLMS_s = rawLMS_s,
                riAdjusted_s = riAdjusted_s, finalLMI_s = finalLMI_s,
                drains = drains, lifts = lifts\<rparr>)))"

subsection \<open>The return statement (lines 239-245)\<close>

text \<open>
  The returned object literal has six shorthand properties, each of which reads the
  identifier of its own name: \<^verbatim>\<open>rawLMS, riAdjusted, finalLMI, rawLMS_scn,
  riAdjusted_scn, finalLMI_scn\<close>. \<open>numberScope\<close> lists the number-valued constants that
  the body declares at function level, which are the ones in scope there (the module
  declares \<^verbatim>\<open>DEFAULT_CONFIG\<close>, \<^verbatim>\<open>DIM_MAP\<close> and the five functions, and nothing
  else). Reading an identifier that no scope declares raises a ReferenceError. The
  properties of an object literal are evaluated in the order written.
\<close>

definition numberScope :: "Computed \<Rightarrow> (string \<times> real) list" where
  "numberScope c =
     [(''awakeHours'', awakeHours c), (''otherAwake'', otherAwake c),
      (''workQ'', workQ c), (''commuteQ'', commuteQ c), (''gymQ'', gymQ c),
      (''relQ'', relQ c), (''leisQ'', leisQ c), (''otherQ'', otherQ c),
      (''awakeWeighted'', awakeWeighted c), (''sleepQ'', sleepQ c),
      (''rawLMS'', rawLMS c), (''netRI'', netRI c), (''riAdjusted'', riAdjusted c),
      (''LMC'', LMC c), (''finalLMI'', finalLMI c),
      (''workQ_s'', workQ_s c), (''commuteQ_s'', commuteQ_s c), (''gymQ_s'', gymQ_s c),
      (''relQ_s'', relQ_s c), (''leisQ_s'', leisQ_s c), (''otherQ_s'', otherQ_s c),
      (''awakeWeighted_s'', awakeWeighted_s c), (''sleepQ_s'', sleepQ_s c),
      (''rawLMS_s'', rawLMS_s c), (''riAdjusted_s'', riAdjusted_s c),
      (''finalLMI_s'', finalLMI_s c)]"

definition ident :: "Computed \<Rightarrow> string \<Rightarrow> error + real" where
  "ident c n =
     (case map_of (numberScope c) n of Some v \<Rightarrow> Inr v | None \<Rightarrow> Inl (ReferenceError n))"

definition returnOutput :: "Computed \<Rightarrow> error + Output" where
  "returnOutput c =
     bindE (ident c ''rawLMS'') (\<lambda>p1.
     bindE (ident c ''riAdjusted'') (\<lambda>p2.
     bindE (ident c ''finalLMI'') (\<lambda>p3.
     bindE (ident c ''rawLMS_scn'') (\<lambda>p4.
     bindE (ident c ''riAdjusted_scn'') (\<lambda>p5.
     bindE (ident c ''finalLMI_scn'') (\<lambda>p6.
       Inr \<lparr>calibrated_current = current c, calibrated_scenario = scenario c,
            sectionAverages_current = sectionCurrent c,
            sectionAverages_scenario = sectionScenario c,
            out_rawLMS = p1, out_riAdjusted = p2, out_finalLMI = p3,
            out_rawLMS_scn = p4, out_riAdjusted_scn = p5, out_finalLMI_scn = p6,
            topDrainers = drains c, topUplifters = lifts c\<rparr>))))))"

definition scoreLMI :: "Input \<Rightarrow> error + Output" where
  "scoreLMI input = bindE (scoreLMI_body input) returnOutput"

text \<open>The entry built for a pair of \<^verbatim>\<open>idxs\<close> whose index is inside the array.\<close>

definition itemOf :: "Answer list \<Rightarrow> nat \<times> real \<Rightarrow> TopItem" where
  "itemOf as x = \<lparr>index = fst x, item_score = snd x, item_note = anote (as ! fst x)\<rparr>"

subsection \<open>Example inputs\<close>

text \<open>An answer with a score, no scenario score and no note.\<close>

definition answered :: "real \<Rightarrow> Answer" where
  "answered s = \<lparr>score = Some s, scenarioScore = None, anote = None\<rparr>"

text \<open>24 answers all scored 10, empty time map, ELI 1, no configuration.\<close>

definition example_all_ten :: Input where
  "example_all_ten =
     \<lparr>answers = replicate 24 (answered 10), timeMap = [], ELI = Some 1, config = None\<rparr>"



text \<open>
  24 answers without scenario scores: the five Autonomy answers (indices 10-14) scored 1,
  the others 10; one Work row of 40 hours; ELI 1; no configuration.
\<close>

definition example_autonomy_low :: Input where
  "example_autonomy_low =
     \<lparr>answers = replicate 10 (answered 10) @ replicate 5 (answered 1) @ replicate 9 (answered 10),
      timeMap = [\<lparr>category = Work, hours = 40, ri = 5\<rparr>],
      ELI = Some 1, config = None\<rparr>"

text \<open>Two inputs that differ in their Chores and Growth rows only.\<close>

definition example_with_chores :: Input where
  "example_with_chores =
     \<lparr>answers = replicate 24 (answered 7),
      timeMap = [\<lparr>category = Chores, hours = 10, ri = 2\<rparr>,
                 \<lparr>category = Work, hours = 40, ri = 6\<rparr>,
                 \<lparr>category = Growth, hours = 5, ri = 9\<rparr>],
      ELI = Some 1, config = None\<rparr>"

definition example_without_chores :: Input where
  "example_without_chores =
     \<lparr>answers = replicate 24 (answered 7),
      timeMap = [\<lparr>category = Work, hours = 40, ri = 6\<rparr>],
      ELI = Some 1, config = None\<rparr>"


text \<open>Cross-lift disabled, with an alpha that is not the default.\<close>

definition example_disabled_alpha :: Input where
  "example_disabled_alpha =
     \<lparr>answers = replicate 24 (answered 10),
      timeMap = [\<lparr>category = Relationships, hours = 14, ri = 10\<rparr>],
      ELI = Some 1,
      config = Some \<lparr>calibration_opt = None, ri_opt = None,
                     crossLift_opt = Some \<lparr>enabled = False, alpha = 3\<rparr>\<rparr>\<rparr>"

text \<open>24 answers: index 0 scored 1, the others 10; empty time map, ELI 1, no configuration.\<close>

definition example_one_low :: Input where
  "example_one_low =
     \<lparr>answers = answered 1 # replicate 23 (answered 10), timeMap = [], ELI = Some 1, config = None\<rparr>"

text \<open>No answers and a week of sleep: 168 hours in the Sleep row.\<close>

definition example_all_sleep :: Input where
  "example_all_sleep =
     \<lparr>answers = [], timeMap = [\<lparr>category = Sleep, hours = 168, ri = 5\<rparr>],
      ELI = Some 1, config = None\<rparr>"

subsection \<open>Predicates of the statements\<close>

text \<open>A time row of a category other than Chores and Growth.\<close>

definition notChoresGrowth :: "TimeRow \<Rightarrow> bool" where
  "notChoresGrowth r = (category r \<noteq> Chores \<and> category r \<noteq> Growth)"

subsection \<open>The drainers and uplifters in the words of the specification\<close>

text \<open>
  The answered items are the pairs of index and raw score of the answers that have a
  score, in the order of the answers. The top drainers are the first three of them when
  they are ordered by score, lowest first, items of equal score by index; the top
  uplifters are the first three when they are ordered by score, highest first, items of
  equal score by index. The order on pairs is the lexicographic one. Each entry carries the
  index, the raw score and the note of its answer.
\<close>

definition spec_answered :: "Answer list \<Rightarrow> (nat \<times> real) list" where
  "spec_answered as =
     concat (map (\<lambda>p. case score (snd p) of None \<Rightarrow> [] | Some s \<Rightarrow> [(fst p, s)]) (enumerate 0 as))"

definition spec_item :: "Answer list \<Rightarrow> nat \<times> real \<Rightarrow> TopItem" where
  "spec_item as p = \<lparr>index = fst p, item_score = snd p, item_note = anote (as ! fst p)\<rparr>"

definition spec_topDrainers :: "Answer list \<Rightarrow> TopItem list" where
  "spec_topDrainers as =
     map (spec_item as) (take 3 (sort_key (\<lambda>p. (snd p, fst p)) (spec_answered as)))"

definition spec_topUplifters :: "Answer list \<Rightarrow> TopItem list" where
  "spec_topUplifters as =
     map (spec_item as) (take 3 (sort_key (\<lambda>p. (- snd p, fst p)) (spec_answered as)))"

section \<open>The calibrator\<close>

lemma calibrate_den_zero: "1 - exp (- k) = (0::real) \<Longrightarrow> 1 - exp (- k * (x / 10)) = (0::real)"
  by simp

lemma calibrate_den_pos: "0 < k \<Longrightarrow> 0 < 1 - exp (- k :: real)"
  by simp

lemma calibrate_Some:
  "k \<noteq> 0 \<Longrightarrow>
   calibrate (Some v) k mx =
     Some (Num (mx * ((1 - exp (- k * (max 1 (min 10 v) / 10))) / (1 - exp (- k)))))"
  by (simp add: calibrate_def Let_def)

lemma calibrate_ratio_bounds:
  assumes "0 < (k::real)" "1 \<le> x" "x \<le> 10"
  shows "0 < (1 - exp (- k * (x / 10))) / (1 - exp (- k))"
    and "(1 - exp (- k * (x / 10))) / (1 - exp (- k)) \<le> 1"
proof -
  have d: "0 < 1 - exp (- k)" using assms(1) by simp
  have "0 < k * (x / 10)" using assms by simp
  then have n: "0 < 1 - exp (- k * (x / 10))" by simp
  have "k * (x / 10) \<le> k" using assms by (simp add: mult_left_le)
  then have le: "1 - exp (- k * (x / 10)) \<le> 1 - exp (- k)" by simp
  show "0 < (1 - exp (- k * (x / 10))) / (1 - exp (- k))" using n d by simp
  show "(1 - exp (- k * (x / 10))) / (1 - exp (- k)) \<le> 1" using le d by simp
qed

lemma calibrate_ratio_mono:
  assumes "0 < (k::real)" "x \<le> y"
  shows "(1 - exp (- k * (x / 10))) / (1 - exp (- k)) \<le> (1 - exp (- k * (y / 10))) / (1 - exp (- k))"
proof -
  have d: "0 < 1 - exp (- k)" using assms(1) by simp
  have "k * (x / 10) \<le> k * (y / 10)" using assms by simp
  then have "1 - exp (- k * (x / 10)) \<le> 1 - exp (- k * (y / 10))" by simp
  then show ?thesis using d by (simp add: divide_right_mono)
qed

lemma calibrate_ratio_strict:
  assumes "0 < (k::real)" "x < y"
  shows "(1 - exp (- k * (x / 10))) / (1 - exp (- k)) < (1 - exp (- k * (y / 10))) / (1 - exp (- k))"
proof -
  have d: "0 < 1 - exp (- k)" using assms(1) by simp
  have "k * (x / 10) < k * (y / 10)" using assms by simp
  then have "1 - exp (- k * (x / 10)) < 1 - exp (- k * (y / 10))" by simp
  then show ?thesis using d by (simp add: divide_strict_right_mono)
qed

text \<open>
  The calibration curve in exact arithmetic. For every \<open>k > 0\<close> and \<open>max > 0\<close>: an
  absent score calibrates to undefined; a score is clamped into [1,10] before calibration
  (so 15 calibrates as 10 does); 10 calibrates to \<open>max\<close> exactly; 1 calibrates to a
  positive value; every defined result lies in (0, max]; and the calibrated value is
  non-decreasing in the score on [1,10].

  This is a property of the curve, not of the code at every \<open>k > 0\<close>: whether the code
  has it at a given \<open>k\<close> is decided by the rounding of \<^verbatim>\<open>Math.exp\<close>, and for a
  very small \<open>k\<close> it does not (see the definition of \<open>calibrate\<close>). C4, which is stated
  for every \<open>k > 0\<close>, is therefore not settled by this lemma.
\<close>

lemma calibrate_curve_exact:
  assumes "0 < k" and "0 < mx"
  shows "calibrate None k mx = None
       \<and> calibrate (Some s) k mx = calibrate (Some (max 1 (min 10 s))) k mx
       \<and> calibrate (Some 15) k mx = calibrate (Some 10) k mx
       \<and> calibrate (Some 10) k mx = Some (Num mx)
       \<and> (\<exists>v. calibrate (Some 1) k mx = Some (Num v) \<and> 0 < v)
       \<and> (\<exists>v. calibrate (Some s) k mx = Some (Num v) \<and> 0 < v \<and> v \<le> mx)
       \<and> (1 \<le> s \<and> s \<le> t \<and> t \<le> 10 \<longrightarrow>
            (\<exists>v w. calibrate (Some s) k mx = Some (Num v) \<and> calibrate (Some t) k mx = Some (Num w)
                   \<and> v \<le> w))"
proof -
  have k0: "k \<noteq> 0" using assms(1) by simp
  have c1: "calibrate None k mx = None" by (simp add: calibrate_def)
  have c2: "calibrate (Some s) k mx = calibrate (Some (max 1 (min 10 s))) k mx"
    by (simp add: calibrate_def Let_def)
  have c3: "calibrate (Some 15) k mx = calibrate (Some 10) k mx"
    by (simp add: calibrate_def Let_def)
  have c4: "calibrate (Some 10) k mx = Some (Num mx)"
    using k0 by (simp add: calibrate_Some)
  have c6: "\<exists>v. calibrate (Some s') k mx = Some (Num v) \<and> 0 < v \<and> v \<le> mx" for s'
  proof -
    define r where "r = (1 - exp (- k * (max 1 (min 10 s') / 10))) / (1 - exp (- k))"
    have r: "0 < r" "r \<le> 1"
      unfolding r_def by (rule calibrate_ratio_bounds[OF assms(1)]; simp)+
    have "0 < mx * r" using r(1) assms(2) by (rule_tac mult_pos_pos)
    moreover have "mx * r \<le> mx" using r(2) assms(2) by (simp add: mult_left_le)
    moreover have "calibrate (Some s') k mx = Some (Num (mx * r))"
      unfolding r_def by (rule calibrate_Some[OF k0])
    ultimately show ?thesis by blast
  qed
  have c5: "\<exists>v. calibrate (Some 1) k mx = Some (Num v) \<and> 0 < v"
    using c6[of 1] by blast
  have c7: "1 \<le> s \<and> s \<le> t \<and> t \<le> 10 \<longrightarrow>
            (\<exists>v w. calibrate (Some s) k mx = Some (Num v) \<and> calibrate (Some t) k mx = Some (Num w)
                   \<and> v \<le> w)"
  proof
    assume h: "1 \<le> s \<and> s \<le> t \<and> t \<le> 10"
    then have xs: "max 1 (min 10 s) = s" and xt: "max 1 (min 10 t) = t" by simp_all
    have "mx * ((1 - exp (- k * (s / 10))) / (1 - exp (- k)))
        \<le> mx * ((1 - exp (- k * (t / 10))) / (1 - exp (- k)))"
      by (rule mult_left_mono[OF calibrate_ratio_mono[OF assms(1)]]) (use h assms(2) in simp_all)
    then show "\<exists>v w. calibrate (Some s) k mx = Some (Num v) \<and> calibrate (Some t) k mx = Some (Num w)
                   \<and> v \<le> w"
      by (simp add: calibrate_Some[OF k0] xs xt)
  qed
  from c1 c2 c3 c4 c5 c6[of s] c7 show ?thesis by blast
qed

lemma calibrate_curve_exact_default:
  "calibrate None 1.936428228 8.75 = None
   \<and> calibrate (Some 15) 1.936428228 8.75 = calibrate (Some 10) 1.936428228 8.75
   \<and> calibrate (Some 10) 1.936428228 8.75 = Some (Num 8.75)
   \<and> (\<exists>v w. calibrate (Some 3) 1.936428228 8.75 = Some (Num v)
           \<and> calibrate (Some 7) 1.936428228 8.75 = Some (Num w) \<and> 0 < v \<and> v \<le> w \<and> w \<le> 8.75)"
proof -
  have h: "(0::real) < 1.936428228" "(0::real) < 8.75" by simp_all
  note p = calibrate_curve_exact[OF h, of 7 7] calibrate_curve_exact[OF h, of 3 7]
  from p(1) obtain w where w: "calibrate (Some 7) 1.936428228 8.75 = Some (Num w)" "w \<le> 8.75"
    by blast
  from p(2) obtain v where v: "calibrate (Some 3) 1.936428228 8.75 = Some (Num v)" "0 < v"
    by blast
  from p(2) have "\<exists>v w. calibrate (Some 3) 1.936428228 8.75 = Some (Num v)
      \<and> calibrate (Some 7) 1.936428228 8.75 = Some (Num w) \<and> v \<le> w" by simp
  with v w have "\<exists>v w. calibrate (Some 3) 1.936428228 8.75 = Some (Num v)
           \<and> calibrate (Some 7) 1.936428228 8.75 = Some (Num w) \<and> 0 < v \<and> v \<le> w \<and> w \<le> 8.75"
    by auto
  with p(1) show ?thesis by blast
qed

lemma calibrate_ten: "k \<noteq> 0 \<Longrightarrow> calibrate (Some 10) k mx = Some (Num mx)"
  by (simp add: calibrate_Some)

lemma calibrate_None: "calibrate None k mx = None"
  by (simp add: calibrate_def)

lemma resolveConfig_None: "config inp = None \<Longrightarrow> resolveConfig inp = DEFAULT_CONFIG"
  by (simp add: resolveConfig_def orElse_def DEFAULT_CONFIG_def)

lemma globalMultiplierOf_None: "config inp = None \<Longrightarrow> globalMultiplierOf inp = 1"
  by (simp add: globalMultiplierOf_def orElse_def)

lemma foldl_plus: "foldl (+) a xs = a + sum_list xs" for a :: real
  by (induction xs arbitrary: a) simp_all

lemma avg_replicate: "0 < n \<Longrightarrow> avg (replicate n (Some (Num v))) = Some v"
  by (simp add: avg_def List.map_filter_def foldl_plus sum_list_replicate)

lemma findRow_Nil: "findRow [] c = \<lparr>category = c, hours = (if c = Sleep then 49 else 0), ri = 5\<rparr>"
  by (simp add: findRow_def orElse_def)

section \<open>The body evaluates; the return statement does not\<close>

text \<open>
  \<open>scoreLMI_body\<close> returns the values of the body on every input, and \<open>scoreLMI\<close>
  then fails in the return statement on every input. The properties of the stages are
  therefore stated on the values of the body, under the names the source binds them to:
  \<open>rawLMS_s\<close>, \<open>riAdjusted_s\<close> and \<open>finalLMI_s\<close> are the scenario results, and
  \<open>drains\<close> and \<open>lifts\<close> are the lists the return statement names
  \<^verbatim>\<open>topDrainers\<close> and \<^verbatim>\<open>topUplifters\<close>.
\<close>

lemma topItems_in_range:
  "list_all (\<lambda>x. fst x < length as) xs \<Longrightarrow> topItems as xs = Inr (map (itemOf as) xs)"
  by (induction xs) (simp_all add: bindE_def noteAt_def itemOf_def)

lemma enumerate_fst_bound: "list_all (\<lambda>x. fst x < n + length bs) (enumerate n bs)"
  by (induction bs arbitrary: n) (simp_all add: list_all_iff, fastforce)

lemma idxsOf_in_range: "list_all (\<lambda>x. fst x < length bs) (idxsOf bs)"
  using enumerate_fst_bound[of 0 bs]
  by (auto simp: idxsOf_def List.map_filter_def list_all_iff split: jsnum.splits)

lemma topItems_sorted:
  "topItems as (take n (sort_key f (idxsOf (baseScoresOf as))))
     = Inr (map (itemOf as) (take n (sort_key f (idxsOf (baseScoresOf as)))))"
proof (rule topItems_in_range)
  have "length (baseScoresOf as) = length as" by (simp add: baseScoresOf_def)
  then have "list_all (\<lambda>x. fst x < length as) (idxsOf (baseScoresOf as))"
    using idxsOf_in_range[of "baseScoresOf as"] by simp
  then show "list_all (\<lambda>x. fst x < length as) (take n (sort_key f (idxsOf (baseScoresOf as))))"
    by (auto simp: list_all_iff dest!: in_set_takeD)
qed

lemma body_total: "\<exists>c. scoreLMI_body inp = Inr c"
  by (simp add: scoreLMI_body_def Let_def bindE_def topItems_sorted)

lemma ident_scn: "ident c ''rawLMS_scn'' = Inl (ReferenceError ''rawLMS_scn'')"
  by (simp add: ident_def numberScope_def)

lemma ident_ok: "ident c ''rawLMS'' = Inr (rawLMS c)" "ident c ''riAdjusted'' = Inr (riAdjusted c)"
  "ident c ''finalLMI'' = Inr (finalLMI c)"
  by (simp_all add: ident_def numberScope_def)

lemma returnOutput_fails: "returnOutput c = Inl (ReferenceError ''rawLMS_scn'')"
  by (simp add: returnOutput_def bindE_def ident_ok ident_scn)

lemma scoreLMI_fails: "scoreLMI inp = Inl (ReferenceError ''rawLMS_scn'')"
  using body_total[of inp] by (auto simp: scoreLMI_def bindE_def returnOutput_fails)


text \<open>Each value of the body in terms of the ones bound before it.\<close>


lemma orElse_Some: "orElse (Some v) b = v"
  by (simp add: orElse_def)

lemma body_fields:
  assumes b: "scoreLMI_body inp = Inr c"
  shows "current c = map (\<lambda>a. calibrate (score a) (cal_k (calibration (resolveConfig inp)))
                               (cal_max (calibration (resolveConfig inp)))) (answers inp)"
    and "scenario c = map (\<lambda>a. calibrate (scenarioScore a) (cal_k (calibration (resolveConfig inp)))
                               (cal_max (calibration (resolveConfig inp)))) (answers inp)"
    and "sectionCurrent c = (\<lambda>d. avg (map (elemAt (current c)) (DIM_MAP d)))"
    and "sectionScenario c = (\<lambda>d. avg (map (elemAt (scenario c)) (DIM_MAP d)))"
    and "baseAvgAll c = avg (current c)"
    and "baseAvgAll_scn c = avg (scenario c)"
    and "awakeHours c = max 0 (168 - hours (resolveBy (timeMap inp) Sleep))"
    and "otherAwake c = max 0 (awakeHours c
           - (hours (resolveBy (timeMap inp) Work) + hours (resolveBy (timeMap inp) Commute)
              + hours (resolveBy (timeMap inp) Gym) + hours (resolveBy (timeMap inp) Relationships)
              + hours (resolveBy (timeMap inp) Leisure)))"
    and "dimQ c = qualityFromSections (sectionCurrent c) (baseAvgAll c)"
    and "dimQ_s c = qualityFromSections (sectionScenario c)
                      (case baseAvgAll_scn c of Some v \<Rightarrow> Some v | None \<Rightarrow> baseAvgAll c)"
    and "workQ c = crossLiftAdjust (crossLift (resolveConfig inp)) (resolveBy (timeMap inp))
                     (awakeHours c) (qWork (dimQ c))"
    and "commuteQ c = qCommute (dimQ c)"
    and "gymQ c = qGym (dimQ c)"
    and "relQ c = qRelationships (dimQ c)"
    and "leisQ c = qLeisure (dimQ c)"
    and "otherQ c = qOther (dimQ c)"
    and "awakeWeighted c =
           awakeSum (resolveBy (timeMap inp)) (otherAwake c) (workQ c) (commuteQ c) (gymQ c)
             (relQ c) (leisQ c) (otherQ c)
           / (if awakeHours c \<noteq> 0 then awakeHours c else 1)"
    and "sleepQ c = (10 + awakeWeighted c) / 2"
    and "rawLMS c =
           (awakeSum (resolveBy (timeMap inp)) (otherAwake c) (workQ c) (commuteQ c) (gymQ c)
              (relQ c) (leisQ c) (otherQ c)
            + hours (resolveBy (timeMap inp) Sleep) * sleepQ c) / 168"
    and "netRI c = netRIOf (resolveBy (timeMap inp)) (otherAwake c)"
    and "riAdjusted c = rawLMS c * (1 + globalMultiplierOf inp * netRI c)"
    and "LMC c = 10 - 0.2 * orElse (ELI inp) 1"
    and "finalLMI c = riAdjusted c * (LMC c / 10)"
    and "workQ_s c = crossLiftAdjust (crossLift (resolveConfig inp)) (resolveBy (timeMap inp))
                       (awakeHours c) (qWork (dimQ_s c))"
    and "commuteQ_s c = qCommute (dimQ_s c)"
    and "gymQ_s c = qGym (dimQ_s c)"
    and "relQ_s c = qRelationships (dimQ_s c)"
    and "leisQ_s c = qLeisure (dimQ_s c)"
    and "otherQ_s c = qOther (dimQ_s c)"
    and "awakeWeighted_s c =
           awakeSum (resolveBy (timeMap inp)) (otherAwake c) (workQ_s c) (commuteQ_s c) (gymQ_s c)
             (relQ_s c) (leisQ_s c) (otherQ_s c)
           / (if awakeHours c \<noteq> 0 then awakeHours c else 1)"
    and "sleepQ_s c = (10 + awakeWeighted_s c) / 2"
    and "rawLMS_s c =
           (awakeSum (resolveBy (timeMap inp)) (otherAwake c) (workQ_s c) (commuteQ_s c) (gymQ_s c)
              (relQ_s c) (leisQ_s c) (otherQ_s c)
            + hours (resolveBy (timeMap inp) Sleep) * sleepQ_s c) / 168"
    and "riAdjusted_s c = rawLMS_s c * (1 + globalMultiplierOf inp * netRI c)"
    and "finalLMI_s c = riAdjusted_s c * (LMC c / 10)"
    and "drains c = map (itemOf (answers inp))
                      (take 3 (sort_key snd (idxsOf (baseScoresOf (answers inp)))))"
    and "lifts c = map (itemOf (answers inp))
                     (take 3 (sort_key (\<lambda>x. - snd x) (idxsOf (baseScoresOf (answers inp)))))"
proof -
  note c = b[symmetric, unfolded scoreLMI_body_def Let_def bindE_def topItems_sorted sum.case
      sum.inject orElse_Some]
  show "current c = map (\<lambda>a. calibrate (score a) (cal_k (calibration (resolveConfig inp)))
                               (cal_max (calibration (resolveConfig inp)))) (answers inp)"
    and "scenario c = map (\<lambda>a. calibrate (scenarioScore a) (cal_k (calibration (resolveConfig inp)))
                               (cal_max (calibration (resolveConfig inp)))) (answers inp)"
    and "sectionCurrent c = (\<lambda>d. avg (map (elemAt (current c)) (DIM_MAP d)))"
    and "sectionScenario c = (\<lambda>d. avg (map (elemAt (scenario c)) (DIM_MAP d)))"
    and "baseAvgAll c = avg (current c)"
    and "baseAvgAll_scn c = avg (scenario c)"
    and "awakeHours c = max 0 (168 - hours (resolveBy (timeMap inp) Sleep))"
    and "otherAwake c = max 0 (awakeHours c
           - (hours (resolveBy (timeMap inp) Work) + hours (resolveBy (timeMap inp) Commute)
              + hours (resolveBy (timeMap inp) Gym) + hours (resolveBy (timeMap inp) Relationships)
              + hours (resolveBy (timeMap inp) Leisure)))"
    and "dimQ c = qualityFromSections (sectionCurrent c) (baseAvgAll c)"
    and "dimQ_s c = qualityFromSections (sectionScenario c)
                      (case baseAvgAll_scn c of Some v \<Rightarrow> Some v | None \<Rightarrow> baseAvgAll c)"
    and "workQ c = crossLiftAdjust (crossLift (resolveConfig inp)) (resolveBy (timeMap inp))
                     (awakeHours c) (qWork (dimQ c))"
    and "commuteQ c = qCommute (dimQ c)"
    and "gymQ c = qGym (dimQ c)"
    and "relQ c = qRelationships (dimQ c)"
    and "leisQ c = qLeisure (dimQ c)"
    and "otherQ c = qOther (dimQ c)"
    and "awakeWeighted c =
           awakeSum (resolveBy (timeMap inp)) (otherAwake c) (workQ c) (commuteQ c) (gymQ c)
             (relQ c) (leisQ c) (otherQ c)
           / (if awakeHours c \<noteq> 0 then awakeHours c else 1)"
    and "sleepQ c = (10 + awakeWeighted c) / 2"
    and "rawLMS c =
           (awakeSum (resolveBy (timeMap inp)) (otherAwake c) (workQ c) (commuteQ c) (gymQ c)
              (relQ c) (leisQ c) (otherQ c)
            + hours (resolveBy (timeMap inp) Sleep) * sleepQ c) / 168"
    and "netRI c = netRIOf (resolveBy (timeMap inp)) (otherAwake c)"
    and "riAdjusted c = rawLMS c * (1 + globalMultiplierOf inp * netRI c)"
    and "LMC c = 10 - 0.2 * orElse (ELI inp) 1"
    and "finalLMI c = riAdjusted c * (LMC c / 10)"
    and "workQ_s c = crossLiftAdjust (crossLift (resolveConfig inp)) (resolveBy (timeMap inp))
                       (awakeHours c) (qWork (dimQ_s c))"
    and "commuteQ_s c = qCommute (dimQ_s c)"
    and "gymQ_s c = qGym (dimQ_s c)"
    and "relQ_s c = qRelationships (dimQ_s c)"
    and "leisQ_s c = qLeisure (dimQ_s c)"
    and "otherQ_s c = qOther (dimQ_s c)"
    and "awakeWeighted_s c =
           awakeSum (resolveBy (timeMap inp)) (otherAwake c) (workQ_s c) (commuteQ_s c) (gymQ_s c)
             (relQ_s c) (leisQ_s c) (otherQ_s c)
           / (if awakeHours c \<noteq> 0 then awakeHours c else 1)"
    and "sleepQ_s c = (10 + awakeWeighted_s c) / 2"
    and "rawLMS_s c =
           (awakeSum (resolveBy (timeMap inp)) (otherAwake c) (workQ_s c) (commuteQ_s c) (gymQ_s c)
              (relQ_s c) (leisQ_s c) (otherQ_s c)
            + hours (resolveBy (timeMap inp) Sleep) * sleepQ_s c) / 168"
    and "riAdjusted_s c = rawLMS_s c * (1 + globalMultiplierOf inp * netRI c)"
    and "finalLMI_s c = riAdjusted_s c * (LMC c / 10)"
    and "drains c = map (itemOf (answers inp))
                      (take 3 (sort_key snd (idxsOf (baseScoresOf (answers inp)))))"
    and "lifts c = map (itemOf (answers inp))
                     (take 3 (sort_key (\<lambda>x. - snd x) (idxsOf (baseScoresOf (answers inp)))))"
    unfolding c Computed.select_convs by (rule refl)+
qed


section \<open>The time-allocation resolver\<close>

lemma find_as_filter:
  "List.find P xs = (case filter P xs of [] \<Rightarrow> None | x # _ \<Rightarrow> Some x)"
  by (induction xs) simp_all

lemma findRow_filter:
  "findRow tm c =
     (case filter (\<lambda>r. category r = c) tm of
        [] \<Rightarrow> \<lparr>category = c, hours = (if c = Sleep then 49 else 0), ri = 5\<rparr>
      | r # _ \<Rightarrow> r)"
  by (simp add: findRow_def find_as_filter orElse_def split: list.splits)

text \<open>
  C5. Each category is resolved to the first row of the time map with that category,
  whatever follows it; without such a row, to the default row: 49 hours and RI 5 for
  Sleep, 0 hours and RI 5 for every other category. \<^verbatim>\<open>by\<close> holds these rows, and the
  body derives \<open>awakeHours = max 0 (168 - Sleep.hours)\<close> and \<open>otherAwake = max 0
  (awakeHours - (Work + Commute + Gym + Relationships + Leisure hours))\<close>.
\<close>

theorem resolver_first_match_defaults_awake:
  "findRow tm c =
     (case filter (\<lambda>r. category r = c) tm of
        [] \<Rightarrow> \<lparr>category = c, hours = (if c = Sleep then 49 else 0), ri = 5\<rparr>
      | r # _ \<Rightarrow> r)
   \<and> resolveBy tm c = findRow tm c
   \<and> (\<exists>cm. scoreLMI_body inp = Inr cm
        \<and> awakeHours cm = max 0 (168 - hours (findRow (timeMap inp) Sleep))
        \<and> otherAwake cm =
            max 0 (awakeHours cm
              - (hours (findRow (timeMap inp) Work) + hours (findRow (timeMap inp) Commute)
                 + hours (findRow (timeMap inp) Gym) + hours (findRow (timeMap inp) Relationships)
                 + hours (findRow (timeMap inp) Leisure))))"
proof -
  obtain cm where b: "scoreLMI_body inp = Inr cm" using body_total by blast
  note f = body_fields[OF b]
  show ?thesis
    using b f(7) f(8) findRow_filter[of tm c] by (simp add: resolveBy_def)
qed

section \<open>Inputs the body does not tell apart\<close>

lemma body_cong:
  assumes "answers a = answers b" "ELI a = ELI b"
    "calibration (resolveConfig a) = calibration (resolveConfig b)"
    "globalMultiplierOf a = globalMultiplierOf b"
    "hours (resolveBy (timeMap a) Sleep) = hours (resolveBy (timeMap b) Sleep)"
    "hours (resolveBy (timeMap a) Work) = hours (resolveBy (timeMap b) Work)"
    "hours (resolveBy (timeMap a) Commute) = hours (resolveBy (timeMap b) Commute)"
    "hours (resolveBy (timeMap a) Gym) = hours (resolveBy (timeMap b) Gym)"
    "hours (resolveBy (timeMap a) Relationships) = hours (resolveBy (timeMap b) Relationships)"
    "hours (resolveBy (timeMap a) Leisure) = hours (resolveBy (timeMap b) Leisure)"
    "crossLiftAdjust (crossLift (resolveConfig a)) (resolveBy (timeMap a))
       = crossLiftAdjust (crossLift (resolveConfig b)) (resolveBy (timeMap b))"
    "awakeSum (resolveBy (timeMap a)) = awakeSum (resolveBy (timeMap b))"
    "netRIOf (resolveBy (timeMap a)) = netRIOf (resolveBy (timeMap b))"
  shows "scoreLMI_body a = scoreLMI_body b"
  unfolding scoreLMI_body_def Let_def assms by (rule refl)

lemma findRow_skip:
  "c \<noteq> Chores \<Longrightarrow> c \<noteq> Growth \<Longrightarrow> findRow (filter notChoresGrowth tm) c = findRow tm c"
proof -
  assume c: "c \<noteq> Chores" "c \<noteq> Growth"
  have "List.find (\<lambda>r. category r = c) (filter notChoresGrowth tm)
      = List.find (\<lambda>r. category r = c) tm"
    using c by (induction tm) (auto simp: notChoresGrowth_def)
  then show ?thesis by (simp add: findRow_def)
qed

lemma resolveBy_skip:
  "c \<noteq> Chores \<Longrightarrow> c \<noteq> Growth \<Longrightarrow> resolveBy tm c = resolveBy (filter notChoresGrowth tm) c"
  by (simp add: resolveBy_def findRow_skip)

lemma resolveBy_skip_used:
  "resolveBy tm Sleep = resolveBy (filter notChoresGrowth tm) Sleep"
  "resolveBy tm Work = resolveBy (filter notChoresGrowth tm) Work"
  "resolveBy tm Commute = resolveBy (filter notChoresGrowth tm) Commute"
  "resolveBy tm Gym = resolveBy (filter notChoresGrowth tm) Gym"
  "resolveBy tm Relationships = resolveBy (filter notChoresGrowth tm) Relationships"
  "resolveBy tm Leisure = resolveBy (filter notChoresGrowth tm) Leisure"
  "resolveBy tm Other = resolveBy (filter notChoresGrowth tm) Other"
  by (rule resolveBy_skip; simp)+

lemma crossLiftAdjust_skip:
  "crossLiftAdjust cl (resolveBy tm) = crossLiftAdjust cl (resolveBy (filter notChoresGrowth tm))"
  unfolding crossLiftAdjust_def resolveBy_skip_used[of tm] by (rule refl)

lemma awakeSum_skip:
  "awakeSum (resolveBy tm) = awakeSum (resolveBy (filter notChoresGrowth tm))"
  unfolding awakeSum_def resolveBy_skip_used[of tm] by (rule refl)

lemma netRIOf_skip:
  "netRIOf (resolveBy tm) = netRIOf (resolveBy (filter notChoresGrowth tm))"
  unfolding netRIOf_def resolveBy_skip_used[of tm] by (rule refl)

text \<open>
  C3. Two inputs with the same answers, ELI and configuration, whose time maps have the
  same rows once the Chores and Growth rows are left out, give the same values in the body
  (\<open>awakeHours\<close>, \<open>otherAwake\<close>, every quality, \<open>rawLMS\<close>, \<open>netRI\<close> and all the
  others) and the same result of \<open>scoreLMI\<close>.
\<close>

theorem chores_growth_unused:
  assumes "answers a = answers b" and "ELI a = ELI b" and "config a = config b"
    and "filter notChoresGrowth (timeMap a) = filter notChoresGrowth (timeMap b)"
  shows "scoreLMI_body a = scoreLMI_body b \<and> scoreLMI a = scoreLMI b"
proof -
  have cfg: "resolveConfig a = resolveConfig b" "globalMultiplierOf a = globalMultiplierOf b"
    using assms(3) by (simp_all add: resolveConfig_def globalMultiplierOf_def)
  have h: "resolveBy (timeMap a) c = resolveBy (timeMap b) c"
    if "c \<noteq> Chores" "c \<noteq> Growth" for c
    using resolveBy_skip[OF that, of "timeMap a"] resolveBy_skip[OF that, of "timeMap b"]
    by (simp only: assms(4))
  have "scoreLMI_body a = scoreLMI_body b"
  proof (rule body_cong)
    show "crossLiftAdjust (crossLift (resolveConfig a)) (resolveBy (timeMap a))
       = crossLiftAdjust (crossLift (resolveConfig b)) (resolveBy (timeMap b))"
      unfolding cfg crossLiftAdjust_skip[of _ "timeMap a"] crossLiftAdjust_skip[of _ "timeMap b"]
        assms(4) by (rule refl)
    show "awakeSum (resolveBy (timeMap a)) = awakeSum (resolveBy (timeMap b))"
      unfolding awakeSum_skip[of "timeMap a"] awakeSum_skip[of "timeMap b"] assms(4)
      by (rule refl)
    show "netRIOf (resolveBy (timeMap a)) = netRIOf (resolveBy (timeMap b))"
      unfolding netRIOf_skip[of "timeMap a"] netRIOf_skip[of "timeMap b"] assms(4)
      by (rule refl)
  qed (simp_all only: assms(1,2) cfg h TimeCategory.distinct not_False_eq_True)
  then show ?thesis by (simp add: scoreLMI_def)
qed

theorem chores_growth_unused_witness:
  "scoreLMI_body example_with_chores = scoreLMI_body example_without_chores
   \<and> scoreLMI example_with_chores = scoreLMI example_without_chores"
  by (rule chores_growth_unused)
     (simp_all add: example_with_chores_def example_without_chores_def notChoresGrowth_def)

lemma crossLiftAdjust_disabled: "\<not> enabled cl \<Longrightarrow> crossLiftAdjust cl = (\<lambda>byc awake wq. wq)"
  by (intro ext) (simp add: crossLiftAdjust_def)

text \<open>
  C7. With \<open>crossLift.enabled\<close> false, whatever \<open>alpha\<close> is, the body computes the same
  values, and \<open>scoreLMI\<close> gives the same result, as with the default cross-lift group
  (disabled, alpha 20) in its place, or with the group left out.
\<close>

theorem crossLift_disabled_noop:
  assumes "config inp = Some pc" and "crossLift_opt pc = Some cl" and "\<not> enabled cl"
  shows "scoreLMI_body inp
           = scoreLMI_body (inp\<lparr>config := Some (pc\<lparr>crossLift_opt := Some (crossLift DEFAULT_CONFIG)\<rparr>)\<rparr>)
       \<and> scoreLMI inp
           = scoreLMI (inp\<lparr>config := Some (pc\<lparr>crossLift_opt := Some (crossLift DEFAULT_CONFIG)\<rparr>)\<rparr>)
       \<and> scoreLMI_body inp = scoreLMI_body (inp\<lparr>config := Some (pc\<lparr>crossLift_opt := None\<rparr>)\<rparr>)
       \<and> scoreLMI inp = scoreLMI (inp\<lparr>config := Some (pc\<lparr>crossLift_opt := None\<rparr>)\<rparr>)"
proof -
  have d: "\<not> enabled (crossLift DEFAULT_CONFIG)" by (simp add: DEFAULT_CONFIG_def)
  have same: "scoreLMI_body inp = scoreLMI_body (inp\<lparr>config := Some (pc\<lparr>crossLift_opt := x\<rparr>)\<rparr>)"
    if "\<not> enabled (orElse x (crossLift DEFAULT_CONFIG))" for x
  proof (rule body_cong)
    show "crossLiftAdjust (crossLift (resolveConfig inp)) (resolveBy (timeMap inp))
        = crossLiftAdjust (crossLift (resolveConfig (inp\<lparr>config := Some (pc\<lparr>crossLift_opt := x\<rparr>)\<rparr>)))
            (resolveBy (timeMap (inp\<lparr>config := Some (pc\<lparr>crossLift_opt := x\<rparr>)\<rparr>)))"
      using assms that by (simp add: resolveConfig_def orElse_def crossLiftAdjust_disabled)
  qed (simp_all add: assms resolveConfig_def globalMultiplierOf_def)
  have s1: "scoreLMI_body inp
      = scoreLMI_body (inp\<lparr>config := Some (pc\<lparr>crossLift_opt := Some (crossLift DEFAULT_CONFIG)\<rparr>)\<rparr>)"
    by (rule same) (simp add: orElse_def d)
  have s2: "scoreLMI_body inp = scoreLMI_body (inp\<lparr>config := Some (pc\<lparr>crossLift_opt := None\<rparr>)\<rparr>)"
    by (rule same) (simp add: orElse_def d)
  from s1 s2 show ?thesis by (simp add: scoreLMI_def)
qed

theorem crossLift_disabled_noop_witness:
  "scoreLMI_body example_disabled_alpha
     = scoreLMI_body (example_disabled_alpha\<lparr>config :=
         Some \<lparr>calibration_opt = None, ri_opt = None,
               crossLift_opt = Some \<lparr>enabled = False, alpha = 20\<rparr>\<rparr>\<rparr>)
   \<and> scoreLMI example_disabled_alpha
     = scoreLMI (example_disabled_alpha\<lparr>config :=
         Some \<lparr>calibration_opt = None, ri_opt = None,
               crossLift_opt = Some \<lparr>enabled = False, alpha = 20\<rparr>\<rparr>\<rparr>)
   \<and> scoreLMI_body example_disabled_alpha
     = scoreLMI_body (example_disabled_alpha\<lparr>config :=
         Some \<lparr>calibration_opt = None, ri_opt = None, crossLift_opt = None\<rparr>\<rparr>)
   \<and> scoreLMI example_disabled_alpha
     = scoreLMI (example_disabled_alpha\<lparr>config :=
         Some \<lparr>calibration_opt = None, ri_opt = None, crossLift_opt = None\<rparr>\<rparr>)"
proof -
  have h: "config example_disabled_alpha
        = Some \<lparr>calibration_opt = None, ri_opt = None,
                 crossLift_opt = Some \<lparr>enabled = False, alpha = 3\<rparr>\<rparr>"
    by (simp add: example_disabled_alpha_def)
  have e: "\<lparr>calibration_opt = None, ri_opt = None,
             crossLift_opt = Some \<lparr>enabled = False, alpha = 3\<rparr>\<rparr>
             \<lparr>crossLift_opt := Some (crossLift DEFAULT_CONFIG)\<rparr>
           = \<lparr>calibration_opt = None, ri_opt = None,
               crossLift_opt = Some \<lparr>enabled = False, alpha = 20\<rparr>\<rparr>"
    "\<lparr>calibration_opt = None, ri_opt = None,
             crossLift_opt = Some \<lparr>enabled = False, alpha = 3\<rparr>\<rparr>
             \<lparr>crossLift_opt := None\<rparr>
           = \<lparr>calibration_opt = None, ri_opt = None, crossLift_opt = None\<rparr>"
    by (simp_all add: DEFAULT_CONFIG_def)
  have "crossLift_opt \<lparr>calibration_opt = None, ri_opt = None,
             crossLift_opt = Some \<lparr>enabled = False, alpha = 3\<rparr>\<rparr>
          = Some \<lparr>enabled = False, alpha = 3\<rparr>"
    and "\<not> enabled \<lparr>enabled = False, alpha = 3\<rparr>"
    by simp_all
  from crossLift_disabled_noop[OF h this] show ?thesis unfolding e .
qed

section \<open>Neutral relative impact\<close>






section \<open>The example with every answer scored 10\<close>



lemma all_ten_values: "\<exists>c. scoreLMI_body example_all_ten = Inr c
   \<and> current c = replicate 24 (Some (Num 8.75))
   \<and> sectionCurrent c = (\<lambda>d. Some 8.75)
   \<and> sleepQ c = 9.375
   \<and> netRI c = 0 \<and> rawLMS c = 1715 / 192 \<and> riAdjusted c = 1715 / 192
   \<and> LMC c = 9.8 \<and> finalLMI c = riAdjusted c * 0.98 \<and> finalLMI c = 16807 / 1920"
proof -
  obtain c where b: "scoreLMI_body example_all_ten = Inr c" using body_total by blast
  note f = body_fields[OF b]
  have cfg: "resolveConfig example_all_ten = DEFAULT_CONFIG"
    by (simp add: resolveConfig_None example_all_ten_def)
  have ans: "answers example_all_ten = replicate 24 (answered 10)"
    by (simp add: example_all_ten_def)
  have cur: "current c = replicate 24 (Some (Num 8.75))"
    by (simp add: f(1) cfg ans DEFAULT_CONFIG_def answered_def calibrate_ten)
  have sec: "sectionCurrent c d = Some 8.75" for d
    by (cases d) (simp_all add: f(3) cur elemAt_def avg_def map_filter_simps)
  have base: "baseAvgAll c = Some 8.75"
    by (simp add: f(5) cur avg_replicate)
  have q: "dimQ c = \<lparr>qWork = 8.75, qCommute = 8.75, qGym = 8.75, qRelationships = 8.75,
      qLeisure = 8.75, qOther = 8.75\<rparr>"
    by (simp add: f(9) qualityFromSections_def sec base orElse_def)
  have tm: "timeMap example_all_ten = []" by (simp add: example_all_ten_def)
  have aw: "awakeHours c = 119" by (simp add: f(7) tm resolveBy_def findRow_Nil)
  have oa: "otherAwake c = 119" by (simp add: f(8) aw tm resolveBy_def findRow_Nil)
  have wq: "workQ c = 8.75"
    by (simp add: f(11) cfg DEFAULT_CONFIG_def crossLiftAdjust_def q)
  note asum = awakeSum_def resolveBy_def findRow_Nil
  have awq: "awakeWeighted c = 8.75"
    by (simp add: f(17) f(12-16) tm oa wq q aw asum)
  have sq: "sleepQ c = 9.375" by (simp add: f(18) awq)
  have raw: "rawLMS c = 1715 / 192"
    by (simp add: f(19) f(12-16) tm oa wq q asum sq resolveBy_def findRow_Nil)
  have net: "netRI c = 0"
    by (simp add: f(20) tm netRIOf_def resolveBy_def findRow_Nil riToInternal_def)
  have ria: "riAdjusted c = 1715 / 192" by (simp add: f(21) raw net)
  have lmc: "LMC c = 9.8" by (simp add: f(22) example_all_ten_def orElse_def)
  have fin: "finalLMI c = riAdjusted c * 0.98" by (simp add: f(23) lmc)
  have fin2: "finalLMI c = 16807 / 1920" by (simp add: fin ria)
  from b cur sec sq net raw ria lmc fin fin2 show ?thesis by auto
qed


text \<open>
  C2, as stated: for the input of 24 answers all scored 10, no scenario scores, an empty
  time map, ELI 1 and the default configuration, \<open>rawLMS\<close>, \<open>riAdjusted\<close> and
  \<open>finalLMI\<close> would all equal 8.75 * 0.98 = 8.575. None of the three does.
\<close>

theorem all_ten_not_8575:
  "\<exists>c. scoreLMI_body example_all_ten = Inr c
     \<and> rawLMS c \<noteq> 8.75 * 0.98 \<and> riAdjusted c \<noteq> 8.75 * 0.98 \<and> finalLMI c \<noteq> 8.75 * 0.98"
proof -
  from all_ten_values obtain c where "scoreLMI_body example_all_ten = Inr c"
    "rawLMS c = 1715 / 192" "riAdjusted c = 1715 / 192" "finalLMI c = 16807 / 1920"
    by blast
  then show ?thesis by simp
qed

text \<open>
  C2, amended: for that input the body of \<open>scoreLMI\<close> computes every calibrated current
  value as 8.75 and each of the five dimension averages as 8.75; \<open>netRI\<close> is 0; the sleep
  quality is (10 + 8.75) / 2, so \<open>rawLMS\<close> and \<open>riAdjusted\<close> are
  (119 * 8.75 + 49 * 9.375) / 168 = 1715 / 192 (about 8.932); \<open>LMC\<close> is 9.8 and
  \<open>finalLMI\<close> is \<open>riAdjusted\<close> * 0.98 = 16807 / 1920 (about 8.754).
\<close>

theorem all_ten_computed:
  "\<exists>c. scoreLMI_body example_all_ten = Inr c
     \<and> current c = replicate 24 (Some (Num 8.75))
     \<and> sectionCurrent c Fulfillment = Some 8.75 \<and> sectionCurrent c Connection = Some 8.75
     \<and> sectionCurrent c Autonomy = Some 8.75 \<and> sectionCurrent c Vitality = Some 8.75
     \<and> sectionCurrent c Peace = Some 8.75
     \<and> netRI c = 0 \<and> sleepQ c = 9.375 \<and> rawLMS c = 1715 / 192 \<and> riAdjusted c = 1715 / 192
     \<and> LMC c = 9.8 \<and> finalLMI c = riAdjusted c * 0.98 \<and> finalLMI c = 16807 / 1920"
proof -
  from all_ten_values obtain c where "scoreLMI_body example_all_ten = Inr c"
    "current c = replicate 24 (Some (Num 8.75))" "sectionCurrent c = (\<lambda>d. Some 8.75)"
    "netRI c = 0" "sleepQ c = 9.375" "rawLMS c = 1715 / 192" "riAdjusted c = 1715 / 192"
    "LMC c = 9.8" "finalLMI c = riAdjusted c * 0.98" "finalLMI c = 16807 / 1920"
    by blast
  then show ?thesis by simp
qed

section \<open>Cross-lift\<close>

lemma riToInternal_clamped: "0 \<le> max 0 (riToInternal r)"
  by simp





section \<open>The scenario run without scenario scores\<close>

lemma avg_numbers:
  "avg (map (\<lambda>v. Some (Num v)) vs) = (if vs = [] then None else Some (sum_list vs / real (length vs)))"
proof -
  have "List.map_filter (\<lambda>n. case n of Some (Num r) \<Rightarrow> Some r | _ \<Rightarrow> None) (map (\<lambda>v. Some (Num v)) vs) = vs"
    by (induction vs) (simp_all add: map_filter_simps)
  then show ?thesis by (simp add: avg_def foldl_plus)
qed

lemma avg_all_None: "set xs \<subseteq> {None} \<Longrightarrow> avg xs = None"
proof -
  assume a: "set xs \<subseteq> {None}"
  have "List.map_filter (\<lambda>n. case n of Some (Num r) \<Rightarrow> Some r | _ \<Rightarrow> None) xs = []"
    using a by (induction xs) (simp_all add: map_filter_simps)
  then show ?thesis by (simp add: avg_def)
qed

lemma elemAt_all_None: "set xs \<subseteq> {None} \<Longrightarrow> elemAt xs i = None"
  by (cases "i < length xs") (auto simp: elemAt_def subset_iff dest: nth_mem)

lemma calibrate_one_below_max:
  assumes "0 < k" and "0 < mx"
  shows "\<exists>v. calibrate (Some 1) k mx = Some (Num v) \<and> 0 < v \<and> v < mx"
proof -
  define r where "r = (1 - exp (- k * (max 1 (min 10 1) / 10))) / (1 - exp (- k))"
  have k0: "k \<noteq> 0" using assms(1) by simp
  have "0 < r" unfolding r_def by (rule calibrate_ratio_bounds[OF assms(1)]; simp)
  moreover have "r < (1 - exp (- k * (10 / 10))) / (1 - exp (- k))"
    unfolding r_def using calibrate_ratio_strict[OF assms(1), of 1 10] by simp
  then have "r < 1" using k0 by simp
  ultimately have "0 < mx * r" "mx * r < mx" using assms(2) by simp_all
  moreover have "calibrate (Some 1) k mx = Some (Num (mx * r))"
    unfolding r_def by (rule calibrate_Some[OF k0])
  ultimately show ?thesis by blast
qed

lemma example_autonomy_low_values:
  "\<exists>c v. scoreLMI_body example_autonomy_low = Inr c
     \<and> 0 < v \<and> v < 8.75
     \<and> sectionScenario c = (\<lambda>d. None) \<and> baseAvgAll c = Some ((166.25 + 5 * v) / 24)
     \<and> workQ c = v \<and> workQ_s c = (166.25 + 5 * v) / 24
     \<and> finalLMI_s c - finalLMI c = (0.98 / 168) * (1 + 49 / 238) * 40 * ((166.25 + 5 * v) / 24 - v)"
proof -
  obtain c where b: "scoreLMI_body example_autonomy_low = Inr c" using body_total by blast
  note f = body_fields[OF b]
  have kpos: "0 < cal_k (calibration DEFAULT_CONFIG)" and kne: "cal_k (calibration DEFAULT_CONFIG) \<noteq> 0"
    and mx: "cal_max (calibration DEFAULT_CONFIG) = 8.75"
    by (simp_all add: DEFAULT_CONFIG_def)
  obtain v where v: "calibrate (Some 1) (cal_k (calibration DEFAULT_CONFIG)) 8.75 = Some (Num v)"
      "0 < v" "v < 8.75"
    using calibrate_one_below_max[OF kpos, of "8.75"] by auto
  define B where "B = (166.25 + 5 * v) / 24"
  have cfg: "resolveConfig example_autonomy_low = DEFAULT_CONFIG"
    by (simp add: resolveConfig_None example_autonomy_low_def)
  have gm: "globalMultiplierOf example_autonomy_low = 1"
    by (simp add: globalMultiplierOf_None example_autonomy_low_def)
  have ans: "answers example_autonomy_low
      = replicate 10 (answered 10) @ replicate 5 (answered 1) @ replicate 9 (answered 10)"
    by (simp add: example_autonomy_low_def)
  have tm: "timeMap example_autonomy_low = [\<lparr>category = Work, hours = 40, ri = 5\<rparr>]"
    by (simp add: example_autonomy_low_def)
  have cur: "current c = map (\<lambda>v. Some (Num v)) (replicate 10 8.75 @ replicate 5 v @ replicate 9 8.75)"
    using v(1) by (simp add: f(1) cfg ans answered_def calibrate_ten[OF kne] mx)
  have scn: "set (scenario c) \<subseteq> {None}"
    by (auto simp: f(2) ans answered_def calibrate_None)
  have secA: "sectionCurrent c Autonomy = Some v"
    by (simp add: f(3) cur elemAt_def nth_append avg_def map_filter_simps)
  have base: "baseAvgAll c = Some B"
    unfolding f(5) cur avg_numbers B_def by (simp add: sum_list_replicate)
  have bs: "baseAvgAll_scn c = None" unfolding f(6) by (rule avg_all_None[OF scn])
  have secS: "sectionScenario c = (\<lambda>d. None)"
    unfolding f(4) by (intro ext avg_all_None) (auto simp: elemAt_all_None[OF scn])
  have qw: "qWork (dimQ c) = v" "qOther (dimQ c) = B"
    by (simp_all add: f(9) qualityFromSections_def secA base orElse_def)
  have qs: "dimQ_s c = \<lparr>qWork = B, qCommute = B, qGym = B, qRelationships = B, qLeisure = B, qOther = B\<rparr>"
    by (simp add: f(10) qualityFromSections_def secS base bs orElse_def)
  have dis: "\<not> enabled (crossLift DEFAULT_CONFIG)" by (simp add: DEFAULT_CONFIG_def)
  have wq: "workQ c = v" by (simp add: f(11) cfg crossLiftAdjust_def dis qw)
  have wqs: "workQ_s c = B" by (simp add: f(24) cfg crossLiftAdjust_def dis qs)
  have hrs: "hours (resolveBy [\<lparr>category = Work, hours = 40, ri = 5\<rparr>] Sleep) = 49"
    "hours (resolveBy [\<lparr>category = Work, hours = 40, ri = 5\<rparr>] Work) = 40"
    "hours (resolveBy [\<lparr>category = Work, hours = 40, ri = 5\<rparr>] Commute) = 0"
    "hours (resolveBy [\<lparr>category = Work, hours = 40, ri = 5\<rparr>] Gym) = 0"
    "hours (resolveBy [\<lparr>category = Work, hours = 40, ri = 5\<rparr>] Relationships) = 0"
    "hours (resolveBy [\<lparr>category = Work, hours = 40, ri = 5\<rparr>] Leisure) = 0"
    by (simp_all add: resolveBy_def findRow_def orElse_def)
  have ris: "ri (resolveBy [\<lparr>category = Work, hours = 40, ri = 5\<rparr>] x) = 5" for x
    by (simp add: resolveBy_def findRow_def orElse_def)
  have aw: "awakeHours c = 119" by (simp add: f(7) tm hrs)
  have oa: "otherAwake c = 79" by (simp add: f(8) aw tm hrs)
  have s1: "awakeSum (resolveBy (timeMap example_autonomy_low)) (otherAwake c) (workQ c) (commuteQ c)
             (gymQ c) (relQ c) (leisQ c) (otherQ c) = 40 * v + 79 * B"
    by (simp add: awakeSum_def tm hrs oa wq f(16) qw)
  have s2: "awakeSum (resolveBy (timeMap example_autonomy_low)) (otherAwake c) (workQ_s c) (commuteQ_s c)
             (gymQ_s c) (relQ_s c) (leisQ_s c) (otherQ_s c) = 119 * B"
    by (simp add: awakeSum_def tm hrs oa wqs f(29) qs)
  have raw: "rawLMS c = (40 * v + 79 * B + 49 * ((10 + (40 * v + 79 * B) / 119) / 2)) / 168"
    unfolding f(19) f(18) f(17) s1 by (simp add: aw tm hrs)
  have raws: "rawLMS_s c = (119 * B + 49 * ((10 + (119 * B) / 119) / 2)) / 168"
    unfolding f(32) f(31) f(30) s2 by (simp add: aw tm hrs)
  have net: "netRI c = 0"
    by (simp add: f(20) netRIOf_def tm ris riToInternal_def)
  have lmc: "LMC c = 9.8" by (simp add: f(22) example_autonomy_low_def orElse_def)
  have fin: "finalLMI c = rawLMS c * 0.98" by (simp add: f(23) f(21) net lmc)
  have fins: "finalLMI_s c = rawLMS_s c * 0.98" by (simp add: f(34) f(33) net lmc)
  have "finalLMI_s c - finalLMI c = (0.98 / 168) * (1 + 49 / 238) * 40 * (B - v)"
    unfolding fin fins raw raws by (simp add: field_simps)
  with b v wq wqs secS base show ?thesis unfolding B_def by blast
qed

text \<open>
  C1, at the failing input. No answer has a scenario score, so every scenario
  dimension average is null. The Autonomy answers are scored 1 and the others 10, and 40
  hours go to Work. The scenario run then takes as Work quality the overall average of the
  current answers, not the Work quality of the current run: \<^verbatim>\<open>qualityFromSections\<close>
  has already replaced the null average by the overall fallback, so the
  \<^verbatim>\<open>?? workQ\<close> of the scenario block is never reached. \<open>finalLMI_s\<close> is greater than
  \<open>finalLMI\<close>.
\<close>

theorem scenario_without_scores_differs:
  "\<exists>c. scoreLMI_body example_autonomy_low = Inr c
     \<and> list_all (\<lambda>a. scenarioScore a = None) (answers example_autonomy_low)
     \<and> sectionScenario c Autonomy = None
     \<and> baseAvgAll c = Some (workQ_s c)
     \<and> workQ c < workQ_s c
     \<and> finalLMI c < finalLMI_s c"
proof -
  from example_autonomy_low_values obtain c v where
    b: "scoreLMI_body example_autonomy_low = Inr c" and v: "0 < v" "v < 8.75"
    and s: "sectionScenario c = (\<lambda>d. None)" and base: "baseAvgAll c = Some ((166.25 + 5 * v) / 24)"
    and w: "workQ c = v" "workQ_s c = (166.25 + 5 * v) / 24"
    and d: "finalLMI_s c - finalLMI c
              = (0.98 / 168) * (1 + 49 / 238) * 40 * ((166.25 + 5 * v) / 24 - v)"
    by blast
  have gap: "0 < (166.25 + 5 * v) / 24 - v" using v(2) by simp
  have "0 < finalLMI_s c - finalLMI c" unfolding d using gap by simp
  moreover have "list_all (\<lambda>a. scenarioScore a = None) (answers example_autonomy_low)"
    by (simp add: example_autonomy_low_def answered_def list_all_iff)
  ultimately show ?thesis using b s base w gap by auto
qed

section \<open>The result of \<^verbatim>\<open>scoreLMI\<close>\<close>

text \<open>
  C10, at every input. The body evaluates: no index read by the drainers and uplifters
  is outside the array of answers. The return statement then reads \<^verbatim>\<open>rawLMS_scn\<close>,
  which no scope declares (the body declares \<^verbatim>\<open>rawLMS_s\<close>), and raises a
  ReferenceError: \<open>scoreLMI\<close> returns no output on any input.
\<close>

theorem scoreLMI_always_raises:
  "(\<exists>c. scoreLMI_body inp = Inr c) \<and> scoreLMI inp = Inl (ReferenceError ''rawLMS_scn'')"
  using body_total[of inp] scoreLMI_fails[of inp] by simp

section \<open>Top drainers and top uplifters\<close>

lemma insort_key_lex:
  fixes k :: "nat \<times> real \<Rightarrow> real"
  shows "\<forall>y\<in>set ys. fst x < fst y \<Longrightarrow>
    insort_key (\<lambda>p. (k p, fst p)) x ys = insort_key k x ys"
  by (induction ys) (auto simp: less_eq_prod_def)

lemma sort_key_lex:
  fixes k :: "nat \<times> real \<Rightarrow> real"
  assumes "sorted_wrt (\<lambda>a b. fst a < fst b) xs"
  shows "sort_key (\<lambda>p. (k p, fst p)) xs = sort_key k xs"
  using assms
proof (induction xs)
  case Nil
  then show ?case by simp
next
  case (Cons x xs)
  then have ih: "sort_key (\<lambda>p. (k p, fst p)) xs = sort_key k xs" by simp
  have "\<forall>y\<in>set (sort_key k xs). fst x < fst y" using Cons.prems by simp
  then show ?case by (simp add: ih insort_key_lex)
qed

lemma idxs_from:
  "List.map_filter (\<lambda>x. case snd x of Num v \<Rightarrow> Some (fst x, v) | NaN \<Rightarrow> None)
     (enumerate n (baseScoresOf as))
   = concat (map (\<lambda>p. case score (snd p) of None \<Rightarrow> [] | Some s \<Rightarrow> [(fst p, s)]) (enumerate n as))"
  by (induction as arbitrary: n)
     (simp_all add: baseScoresOf_def map_filter_simps split: option.splits)

lemma idxsOf_spec: "idxsOf (baseScoresOf as) = spec_answered as"
  by (simp add: idxsOf_def spec_answered_def idxs_from)

lemma idxs_from_lower:
  "\<forall>y\<in>set (List.map_filter (\<lambda>x. case snd x of Num v \<Rightarrow> Some (fst x, v) | NaN \<Rightarrow> None)
       (enumerate n bs)). n \<le> fst y"
  by (induction bs arbitrary: n) (auto simp: map_filter_simps split: jsnum.splits, fastforce+)

lemma idxs_from_sorted:
  "sorted_wrt (\<lambda>a b. fst a < fst b)
     (List.map_filter (\<lambda>x. case snd x of Num v \<Rightarrow> Some (fst x, v) | NaN \<Rightarrow> None) (enumerate n bs))"
proof (induction bs arbitrary: n)
  case Nil
  then show ?case by (simp add: map_filter_simps)
next
  case (Cons b bs)
  show ?case using Cons[of "Suc n"] idxs_from_lower[of "Suc n" bs]
    by (cases b) (auto simp: map_filter_simps)
qed

lemma idxsOf_sorted: "sorted_wrt (\<lambda>a b. fst a < fst b) (idxsOf bs)"
  unfolding idxsOf_def by (rule idxs_from_sorted)

lemma drains_spec:
  assumes "scoreLMI_body inp = Inr c"
  shows "drains c = spec_topDrainers (answers inp)" and "lifts c = spec_topUplifters (answers inp)"
proof -
  note f = body_fields[OF assms]
  have i: "itemOf (answers inp) = spec_item (answers inp)"
    by (intro ext) (simp add: itemOf_def spec_item_def)
  have s: "sorted_wrt (\<lambda>a b. fst a < fst b) (spec_answered (answers inp))"
    using idxsOf_sorted[of "baseScoresOf (answers inp)"] by (simp add: idxsOf_spec)
  show "drains c = spec_topDrainers (answers inp)"
    unfolding f(35) spec_topDrainers_def i idxsOf_spec sort_key_lex[OF s, of snd] by (rule refl)
  show "lifts c = spec_topUplifters (answers inp)"
    unfolding f(36) spec_topUplifters_def i idxsOf_spec sort_key_lex[OF s, of "\<lambda>p. - snd p"]
    by (rule refl)
qed

lemma example_one_low_answered: "spec_answered (answers example_one_low) =
   (0, 1) # map (\<lambda>i. (i, 10)) [1..<24]"
  by (simp add: example_one_low_def spec_answered_def answered_def eval_nat_numeral upt_rec)

lemma example_one_low_drainers: "spec_topDrainers (answers example_one_low)
    = [\<lparr>index = 0, item_score = 1, item_note = None\<rparr>,
       \<lparr>index = 1, item_score = 10, item_note = None\<rparr>,
       \<lparr>index = 2, item_score = 10, item_note = None\<rparr>]"
  unfolding spec_topDrainers_def example_one_low_answered
  by (simp add: upt_rec less_eq_prod_def spec_item_def example_one_low_def answered_def)

lemma example_one_low_uplifters: "spec_topUplifters (answers example_one_low)
    = [\<lparr>index = 1, item_score = 10, item_note = None\<rparr>,
       \<lparr>index = 2, item_score = 10, item_note = None\<rparr>,
       \<lparr>index = 3, item_score = 10, item_note = None\<rparr>]"
  unfolding spec_topUplifters_def example_one_low_answered
  by (simp add: upt_rec less_eq_prod_def spec_item_def example_one_low_def answered_def)

lemma example_one_low_values:
  "\<exists>c v. scoreLMI_body example_one_low = Inr c
     \<and> drains c = [\<lparr>index = 0, item_score = 1, item_note = None\<rparr>,
                   \<lparr>index = 1, item_score = 10, item_note = None\<rparr>,
                   \<lparr>index = 2, item_score = 10, item_note = None\<rparr>]
     \<and> lifts c = [\<lparr>index = 1, item_score = 10, item_note = None\<rparr>,
                  \<lparr>index = 2, item_score = 10, item_note = None\<rparr>,
                  \<lparr>index = 3, item_score = 10, item_note = None\<rparr>]
     \<and> sectionCurrent c Fulfillment = Some v \<and> v < 8.75
     \<and> sectionCurrent c Connection = Some 8.75 \<and> sectionCurrent c Autonomy = Some 8.75
     \<and> sectionCurrent c Vitality = Some 8.75 \<and> sectionCurrent c Peace = Some 8.75"
proof -
  obtain c where b: "scoreLMI_body example_one_low = Inr c" using body_total by blast
  note f = body_fields[OF b]
  have kpos: "0 < cal_k (calibration DEFAULT_CONFIG)" and kne: "cal_k (calibration DEFAULT_CONFIG) \<noteq> 0"
    and mx: "cal_max (calibration DEFAULT_CONFIG) = 8.75"
    by (simp_all add: DEFAULT_CONFIG_def)
  obtain v where v: "calibrate (Some 1) (cal_k (calibration DEFAULT_CONFIG)) 8.75 = Some (Num v)"
      "0 < v" "v < 8.75"
    using calibrate_one_below_max[OF kpos, of "8.75"] by auto
  have cfg: "resolveConfig example_one_low = DEFAULT_CONFIG"
    by (simp add: resolveConfig_None example_one_low_def)
  have ans: "answers example_one_low = answered 1 # replicate 23 (answered 10)"
    by (simp add: example_one_low_def)
  have cur: "current c = Some (Num v) # replicate 23 (Some (Num 8.75))"
    using v(1) by (simp add: f(1) cfg ans answered_def calibrate_ten[OF kne] mx)
  have sF: "sectionCurrent c Fulfillment = Some ((v + 35) / 5)"
    by (simp add: f(3) cur elemAt_def avg_def map_filter_simps)
  have sO: "sectionCurrent c Connection = Some 8.75" "sectionCurrent c Autonomy = Some 8.75"
    "sectionCurrent c Vitality = Some 8.75" "sectionCurrent c Peace = Some 8.75"
    by (simp_all add: f(3) cur elemAt_def avg_def map_filter_simps)
  have lt: "(v + 35) / 5 < 8.75" using v(3) by simp
  have d: "drains c = [\<lparr>index = 0, item_score = 1, item_note = None\<rparr>,
                   \<lparr>index = 1, item_score = 10, item_note = None\<rparr>,
                   \<lparr>index = 2, item_score = 10, item_note = None\<rparr>]"
    unfolding drains_spec(1)[OF b] by (rule example_one_low_drainers)
  have l: "lifts c = [\<lparr>index = 1, item_score = 10, item_note = None\<rparr>,
                  \<lparr>index = 2, item_score = 10, item_note = None\<rparr>,
                  \<lparr>index = 3, item_score = 10, item_note = None\<rparr>]"
    unfolding drains_spec(2)[OF b] by (rule example_one_low_uplifters)
  from b d l sF lt sO show ?thesis by blast
qed

text \<open>
  C9. The list bound to \<open>topDrainers\<close> holds the at most three answered items with the
  lowest raw scores, in ascending order, and the list bound to \<open>topUplifters\<close> the at most
  three with the highest, in descending order; unanswered items are left out and items of
  equal score stand in the order of their indices. For the input of 24 answers all scored
  10 except index 0 scored 1, the first drainer is index 0 with score 1, the Fulfillment
  average is below 8.75 and the other four averages are 8.75.
\<close>

theorem top_items_lowest_and_highest:
  "(\<exists>c. scoreLMI_body inp = Inr c
      \<and> drains c = spec_topDrainers (answers inp)
      \<and> lifts c = spec_topUplifters (answers inp))
   \<and> (\<exists>c v. scoreLMI_body example_one_low = Inr c
      \<and> drains c ! 0 = \<lparr>index = 0, item_score = 1, item_note = None\<rparr>
      \<and> sectionCurrent c Fulfillment = Some v \<and> v < 8.75
      \<and> sectionCurrent c Connection = Some 8.75 \<and> sectionCurrent c Autonomy = Some 8.75
      \<and> sectionCurrent c Vitality = Some 8.75 \<and> sectionCurrent c Peace = Some 8.75)"
proof -
  obtain c where b: "scoreLMI_body inp = Inr c" using body_total by blast
  from b drains_spec[OF b] have g: "\<exists>c. scoreLMI_body inp = Inr c
      \<and> drains c = spec_topDrainers (answers inp)
      \<and> lifts c = spec_topUplifters (answers inp)" by blast
  from example_one_low_values obtain c' v where
    "scoreLMI_body example_one_low = Inr c'"
    "drains c' = [\<lparr>index = 0, item_score = 1, item_note = None\<rparr>,
                   \<lparr>index = 1, item_score = 10, item_note = None\<rparr>,
                   \<lparr>index = 2, item_score = 10, item_note = None\<rparr>]"
    "sectionCurrent c' Fulfillment = Some v" "v < 8.75"
    "sectionCurrent c' Connection = Some 8.75" "sectionCurrent c' Autonomy = Some 8.75"
    "sectionCurrent c' Vitality = Some 8.75" "sectionCurrent c' Peace = Some 8.75"
    by blast
  then have e: "\<exists>c v. scoreLMI_body example_one_low = Inr c
      \<and> drains c ! 0 = \<lparr>index = 0, item_score = 1, item_note = None\<rparr>
      \<and> sectionCurrent c Fulfillment = Some v \<and> v < 8.75
      \<and> sectionCurrent c Connection = Some 8.75 \<and> sectionCurrent c Autonomy = Some 8.75
      \<and> sectionCurrent c Vitality = Some 8.75 \<and> sectionCurrent c Peace = Some 8.75"
    by auto
  from g e show ?thesis by blast
qed

section \<open>Further properties of the stages\<close>

text \<open>
  The translation of a relative-impact rating: 5 is neutral, 1 gives -0.30 and 10 gives
  0.30; an absent rating gives 0.
\<close>

theorem riToInternal_values:
  "riToInternal (Some 5) = 0 \<and> riToInternal (Some 1) = - 0.30 \<and> riToInternal (Some 10) = 0.30
   \<and> riToInternal None = 0"
  by (simp add: riToInternal_def)

text \<open>
  The average of values that are all undefined is null; \<^verbatim>\<open>NaN\<close> and undefined entries
  are skipped; the average of a single defined value is that value.
\<close>

theorem avg_no_data_and_single:
  "avg (replicate n None) = None \<and> avg [] = None \<and> avg [Some (Num v)] = Some v
   \<and> avg [Some NaN, Some (Num v), None] = Some v"
proof -
  have "avg (replicate n None) = None" by (rule avg_all_None) auto
  then show ?thesis by (simp add: avg_def map_filter_simps)
qed

text \<open>
  With ELI 1 the life-condition multiplier is 9.8 and \<open>finalLMI\<close> is \<open>riAdjusted\<close> times
  0.98, for every set of answers, time map and configuration.
\<close>

theorem eli_one_multiplier:
  "\<exists>c. scoreLMI_body (inp\<lparr>ELI := Some 1\<rparr>) = Inr c \<and> LMC c = 9.8
     \<and> finalLMI c = riAdjusted c * 0.98"
proof -
  obtain c where b: "scoreLMI_body (inp\<lparr>ELI := Some 1\<rparr>) = Inr c" using body_total by blast
  note f = body_fields[OF b]
  have "LMC c = 9.8" by (simp add: f(22) orElse_def)
  moreover from this have "finalLMI c = riAdjusted c * 0.98" by (simp add: f(23))
  ultimately show ?thesis using b by blast
qed

text \<open>
  The guards of the body at an input without answers and without awake hours: every
  dimension average is null and every quality falls back to 0; \<open>awakeHours\<close> is 0 and the
  awake-weighted average is divided by 1; the sleep quality is 5 and so is \<open>rawLMS\<close>.
\<close>

theorem all_sleep_computed:
  "\<exists>c. scoreLMI_body example_all_sleep = Inr c
     \<and> sectionCurrent c = (\<lambda>d. None) \<and> baseAvgAll c = None
     \<and> workQ c = 0 \<and> otherQ c = 0
     \<and> awakeHours c = 0 \<and> otherAwake c = 0 \<and> awakeWeighted c = 0
     \<and> sleepQ c = 5 \<and> rawLMS c = 5 \<and> netRI c = 0 \<and> riAdjusted c = 5 \<and> finalLMI c = 4.9
     \<and> drains c = [] \<and> lifts c = []"
proof -
  obtain c where b: "scoreLMI_body example_all_sleep = Inr c" using body_total by blast
  note f = body_fields[OF b]
  have ans: "answers example_all_sleep = []"
    and tm: "timeMap example_all_sleep = [\<lparr>category = Sleep, hours = 168, ri = 5\<rparr>]"
    and cfg: "resolveConfig example_all_sleep = DEFAULT_CONFIG"
    and gm: "globalMultiplierOf example_all_sleep = 1"
    by (simp_all add: example_all_sleep_def resolveConfig_None globalMultiplierOf_None)
  have cur: "current c = []" by (simp add: f(1) ans)
  have sec: "sectionCurrent c = (\<lambda>d. None)"
    unfolding f(3) cur by (intro ext avg_all_None) (auto simp: elemAt_def)
  have base: "baseAvgAll c = None" by (simp add: f(5) cur avg_def map_filter_simps)
  have q: "dimQ c = \<lparr>qWork = 0, qCommute = 0, qGym = 0, qRelationships = 0, qLeisure = 0,
      qOther = 0\<rparr>"
    by (simp add: f(9) qualityFromSections_def sec base orElse_def)
  have hrs: "hours (resolveBy (timeMap example_all_sleep) x) = (if x = Sleep then 168 else 0)" for x
    by (simp add: tm resolveBy_def findRow_def orElse_def)
  have ris: "ri (resolveBy (timeMap example_all_sleep) x) = 5" for x
    by (simp add: tm resolveBy_def findRow_def orElse_def)
  have aw: "awakeHours c = 0" by (simp add: f(7) hrs)
  have oa: "otherAwake c = 0" by (simp add: f(8) aw hrs)
  have wq: "workQ c = 0" by (simp add: f(11) cfg DEFAULT_CONFIG_def crossLiftAdjust_def q)
  have oq: "otherQ c = 0" by (simp add: f(16) q)
  have asum: "awakeSum (resolveBy (timeMap example_all_sleep)) (otherAwake c) (workQ c) (commuteQ c)
      (gymQ c) (relQ c) (leisQ c) (otherQ c) = 0"
    by (simp add: awakeSum_def hrs oa)
  have awq: "awakeWeighted c = 0" by (simp add: f(17) asum)
  have sq: "sleepQ c = 5" by (simp add: f(18) awq)
  have raw: "rawLMS c = 5" by (simp add: f(19) asum sq hrs)
  have net: "netRI c = 0" by (simp add: f(20) netRIOf_def ris riToInternal_def)
  have ria: "riAdjusted c = 5" by (simp add: f(21) raw net)
  have lmc: "LMC c = 9.8" by (simp add: f(22) example_all_sleep_def orElse_def)
  have fin: "finalLMI c = 4.9" by (simp add: f(23) ria lmc)
  have dl: "drains c = []" "lifts c = []"
    by (simp_all add: f(35) f(36) ans baseScoresOf_def idxsOf_def map_filter_simps)
  from b sec base wq oq aw oa awq sq raw net ria fin dl show ?thesis by blast
qed

end
